theory Spec2Isabelle
  imports Complex_Main "HOL-Library.Multiset" "HOL-Library.Sublist"
begin

section \<open>Numbers of the program\<close>

text \<open>
  The program computes with IEEE double-precision floats (numpy \<open>float64\<close>). They are
  modelled as the real numbers extended by the three special values that the program's
  divisions can produce. Rounding error and overflow of the finite operations are
  abstracted (a finite operation returns the exact real), and zero is unsigned: a nonzero
  finite value divided by zero gives the infinity with the sign of the numerator, and zero
  divided by zero gives \<open>NaN\<close>. numpy does not raise on a division by zero.
\<close>

datatype fval = Fin real | PInf | NInf | NaN

datatype py_error = IndexError | FetchError

fun fneg :: "fval \<Rightarrow> fval" where
  "fneg (Fin a) = Fin (- a)"
| "fneg PInf = NInf"
| "fneg NInf = PInf"
| "fneg NaN = NaN"

fun fadd :: "fval \<Rightarrow> fval \<Rightarrow> fval" where
  "fadd NaN _ = NaN"
| "fadd _ NaN = NaN"
| "fadd (Fin a) (Fin b) = Fin (a + b)"
| "fadd PInf NInf = NaN"
| "fadd NInf PInf = NaN"
| "fadd PInf _ = PInf"
| "fadd _ PInf = PInf"
| "fadd NInf _ = NInf"
| "fadd _ NInf = NInf"

definition fsub :: "fval \<Rightarrow> fval \<Rightarrow> fval" where
  "fsub a b = fadd a (fneg b)"

fun fmul :: "fval \<Rightarrow> fval \<Rightarrow> fval" where
  "fmul NaN _ = NaN"
| "fmul _ NaN = NaN"
| "fmul (Fin a) (Fin b) = Fin (a * b)"
| "fmul PInf (Fin b) = (if b = 0 then NaN else if 0 < b then PInf else NInf)"
| "fmul NInf (Fin b) = (if b = 0 then NaN else if 0 < b then NInf else PInf)"
| "fmul (Fin a) PInf = (if a = 0 then NaN else if 0 < a then PInf else NInf)"
| "fmul (Fin a) NInf = (if a = 0 then NaN else if 0 < a then NInf else PInf)"
| "fmul PInf PInf = PInf"
| "fmul NInf NInf = PInf"
| "fmul PInf NInf = NInf"
| "fmul NInf PInf = NInf"

fun fdiv :: "fval \<Rightarrow> fval \<Rightarrow> fval" where
  "fdiv NaN _ = NaN"
| "fdiv _ NaN = NaN"
| "fdiv (Fin a) (Fin b) =
     (if b = 0 then (if a = 0 then NaN else if 0 < a then PInf else NInf)
      else Fin (a / b))"
| "fdiv (Fin a) PInf = Fin 0"
| "fdiv (Fin a) NInf = Fin 0"
| "fdiv PInf (Fin b) = (if 0 \<le> b then PInf else NInf)"
| "fdiv NInf (Fin b) = (if 0 \<le> b then NInf else PInf)"
| "fdiv PInf _ = NaN"
| "fdiv NInf _ = NaN"

fun fabs :: "fval \<Rightarrow> fval" where
  "fabs (Fin a) = Fin \<bar>a\<bar>"
| "fabs PInf = PInf"
| "fabs NInf = PInf"
| "fabs NaN = NaN"

text \<open>Python's \<open><\<close> on floats: every comparison with \<open>NaN\<close> is false.\<close>

fun flt :: "fval \<Rightarrow> fval \<Rightarrow> bool" where
  "flt NaN _ = False"
| "flt _ NaN = False"
| "flt (Fin a) (Fin b) = (a < b)"
| "flt (Fin a) PInf = True"
| "flt (Fin a) NInf = False"
| "flt PInf _ = False"
| "flt NInf NInf = False"
| "flt NInf _ = True"

definition fgt :: "fval \<Rightarrow> fval \<Rightarrow> bool" where
  "fgt a b = flt b a"

definition fge :: "fval \<Rightarrow> fval \<Rightarrow> bool" where
  "fge a b = (a \<noteq> NaN \<and> b \<noteq> NaN \<and> \<not> flt a b)"

text \<open>
  \<open>round(x, ndigits)\<close> on a numpy float: \<open>rint(x * 10^ndigits) / 10^ndigits\<close>, where
  \<open>rint\<close> rounds to the nearest integer and a tie to the even one. The special values
  are returned unchanged.
\<close>

definition rint :: "real \<Rightarrow> int" where
  "rint x =
     (let f = \<lfloor>x\<rfloor>; d = x - of_int f
      in if d < 1 / 2 then f else if 1 / 2 < d then f + 1
         else if even f then f else f + 1)"

fun round_nd :: "fval \<Rightarrow> nat \<Rightarrow> fval" where
  "round_nd (Fin x) nd = Fin (of_int (rint (x * 10 ^ nd)) / 10 ^ nd)"
| "round_nd v nd = v"

section \<open>Signal classifier\<close>

record signal_labels =
  rsi_signal :: string
  trend_signal :: string
  ma_signal :: string

text \<open>
  The label \<open>Mixta/Consolidaci\<acute>on\<close> holds one non-ASCII letter, written here as its
  two UTF-8 bytes.
\<close>

definition mixta :: string where
  "mixta = ''Mixta/Consolidaci'' @ [CHR 0xC3, CHR 0xB3] @ ''n''"

text \<open>
  \<open>get_technical_signals\<close> (main.py, lines 61 to 91). The chained comparison
  \<open>price > sma20 > sma50\<close> is Python's \<open>price > sma20 and sma20 > sma50\<close>.
\<close>

definition get_technical_signals :: "fval \<Rightarrow> fval \<Rightarrow> fval \<Rightarrow> fval \<Rightarrow> signal_labels" where
  "get_technical_signals rsi price sma20 sma50 =
     \<lparr> rsi_signal =
         (if fgt rsi (Fin 70) then ''Sobrecompra''
          else if flt rsi (Fin 30) then ''Sobreventa''
          else ''Neutral''),
       trend_signal =
         (if fgt price sma20 \<and> fgt sma20 sma50 then ''Alcista''
          else if flt price sma20 \<and> flt sma20 sma50 then ''Bajista''
          else mixta),
       ma_signal =
         (if fgt sma20 sma50 then ''Golden Cross (alcista)''
          else ''Death Cross (bajista)'') \<rparr>"

section \<open>Series operations\<close>

text \<open>
  A pandas column is a list, oldest row first. \<open>iloc\<close> is positional indexing: a
  negative position counts from the end, and a position outside the column raises
  \<open>IndexError\<close>.
\<close>

definition iloc :: "'a list \<Rightarrow> int \<Rightarrow> py_error + 'a" where
  "iloc xs i =
     (if 0 \<le> i \<and> i < int (length xs) then Inr (xs ! nat i)
      else if i < 0 \<and> - int (length xs) \<le> i then Inr (xs ! nat (int (length xs) + i))
      else Inl IndexError)"

definition bind_err :: "'e + 'a \<Rightarrow> ('a \<Rightarrow> 'e + 'b) \<Rightarrow> 'e + 'b" where
  "bind_err m f = (case m of Inl e \<Rightarrow> Inl e | Inr x \<Rightarrow> f x)"

text \<open>\<open>Series.diff()\<close> and \<open>Series.shift()\<close>: the first row has no value (\<open>None\<close>).\<close>

fun diff :: "real list \<Rightarrow> real option list" where
  "diff [] = []"
| "diff (x # xs) = None # map (\<lambda>(a, b). Some (b - a)) (zip (x # xs) xs)"

fun shift :: "real list \<Rightarrow> real option list" where
  "shift [] = []"
| "shift (x # xs) = None # map Some (butlast (x # xs))"

text \<open>
  \<open>Series.rolling(w).mean()\<close>: row \<open>i\<close> holds the mean of the \<open>w\<close> rows ending at
  \<open>i\<close>, and \<open>NaN\<close> while fewer than \<open>w\<close> rows are there.
\<close>

definition rolling_mean :: "nat \<Rightarrow> real list \<Rightarrow> fval list" where
  "rolling_mean w xs =
     map (\<lambda>i. if Suc i < w then NaN
              else Fin (sum_list (take w (drop (Suc i - w) xs)) / real w))
       [0..<length xs]"

text \<open>
  \<open>Series.ewm(span, adjust=False).mean()\<close>: the first row is the first value, and each
  later row is \<open>(1 - alpha) * previous + alpha * value\<close> with \<open>alpha = 2 / (n + 1)\<close>
  for the span \<open>n\<close>.
\<close>

fun ewm_rows :: "real \<Rightarrow> real \<Rightarrow> real list \<Rightarrow> real list" where
  "ewm_rows alpha y [] = []"
| "ewm_rows alpha y (x # xs) =
     (let y' = (1 - alpha) * y + alpha * x in y' # ewm_rows alpha y' xs)"

fun ewm_mean :: "nat \<Rightarrow> real list \<Rightarrow> real list" where
  "ewm_mean n [] = []"
| "ewm_mean n (x # xs) = x # ewm_rows (2 / (real n + 1)) x xs"

text \<open>\<open>Series.max()\<close> and \<open>Series.min()\<close>: \<open>NaN\<close> on an empty column.\<close>

fun series_max :: "real list \<Rightarrow> fval" where
  "series_max [] = NaN"
| "series_max (x # xs) = Fin (fold max xs x)"

fun series_min :: "real list \<Rightarrow> fval" where
  "series_min [] = NaN"
| "series_min (x # xs) = Fin (fold min xs x)"

text \<open>
  The row maximum \<open>np.max(ranges, axis=1)\<close> of the three range columns skips missing
  values; the first column \<open>high - low\<close> has none.
\<close>

definition row_max :: "real \<Rightarrow> real option list \<Rightarrow> real" where
  "row_max v os = fold (\<lambda>ov m. case ov of None \<Rightarrow> m | Some w \<Rightarrow> max m w) os v"

section \<open>Indicator engine\<close>

text \<open>\<open>calculate_rsi\<close> (main.py, lines 41 to 48).\<close>

definition calculate_rsi :: "real list \<Rightarrow> nat \<Rightarrow> py_error + fval" where
  "calculate_rsi prices period =
     (let delta = diff prices;
          gain = rolling_mean period
                   (map (\<lambda>d. case d of None \<Rightarrow> 0 | Some v \<Rightarrow> if 0 < v then v else 0) delta);
          loss = rolling_mean period
                   (map (\<lambda>d. - (case d of None \<Rightarrow> 0 | Some v \<Rightarrow> if v < 0 then v else 0)) delta);
          rs = map (\<lambda>(g, l). fdiv g l) (zip gain loss);
          rsi_rows = map (\<lambda>r. fsub (Fin 100) (fdiv (Fin 100) (fadd (Fin 1) r))) rs
      in iloc rsi_rows (- 1))"

text \<open>\<open>calculate_sma\<close> (lines 51 to 53) and \<open>calculate_ema\<close> (lines 56 to 58).\<close>

definition calculate_sma :: "real list \<Rightarrow> nat \<Rightarrow> py_error + fval" where
  "calculate_sma prices period = iloc (rolling_mean period prices) (- 1)"

definition calculate_ema :: "real list \<Rightarrow> nat \<Rightarrow> py_error + fval" where
  "calculate_ema prices period = iloc (map Fin (ewm_mean period prices)) (- 1)"

section \<open>Stock analyzer\<close>

record bar =
  open_price :: real
  high :: real
  low :: real
  close :: real
  volume :: int

text \<open>
  \<open>ticker.info\<close> is read with \<open>.get(key, default)\<close>, so each of its three entries may
  be absent.
\<close>

record ticker_info =
  info_shortName :: "string option"
  info_sector :: "string option"
  info_marketCap :: "int option"

text \<open>
  The market-data provider (yfinance) is the program's only input. \<open>history s p\<close> is
  \<open>yf.Ticker(s).history(period=p)\<close> and \<open>info s\<close> is \<open>yf.Ticker(s).info\<close>; either
  may raise.
\<close>

record provider =
  history :: "string \<Rightarrow> string \<Rightarrow> py_error + bar list"
  info :: "string \<Rightarrow> py_error + ticker_info"

record analysis_record =
  symbol :: string
  company_name :: string
  sector :: string
  current_price :: fval
  daily_change_pct :: fval
  rsi :: fval
  sma20 :: fval
  sma50 :: fval
  ema12 :: fval
  ema26 :: fval
  volume_ratio :: fval
  high_52w :: fval
  low_52w :: fval
  position_52w :: fval
  atr :: fval
  signals :: signal_labels
  market_cap :: int

text \<open>The expressions of lines 110, 115 and 120, and the true range of lines 133 to 137.\<close>

definition daily_change_pct_of :: "real \<Rightarrow> real \<Rightarrow> fval" where
  "daily_change_pct_of cur prev = fmul (fdiv (Fin (cur - prev)) (Fin prev)) (Fin 100)"

definition position_52w_of :: "real \<Rightarrow> fval \<Rightarrow> fval \<Rightarrow> fval" where
  "position_52w_of cur hi lo = fmul (fdiv (fsub (Fin cur) lo) (fsub hi lo)) (Fin 100)"

definition volume_ratio_of :: "int \<Rightarrow> fval \<Rightarrow> fval" where
  "volume_ratio_of cur_volume avg_volume =
     (if fgt avg_volume (Fin 0) then fdiv (Fin (real_of_int cur_volume)) avg_volume
      else Fin 1)"

definition true_range :: "bar list \<Rightarrow> real list" where
  "true_range hist =
     (let high_low = map (\<lambda>b. high b - low b) hist;
          prev_close = shift (map close hist);
          high_close = map (\<lambda>(h, c). map_option (\<lambda>c. \<bar>h - c\<bar>) c) (zip (map high hist) prev_close);
          low_close = map (\<lambda>(l, c). map_option (\<lambda>c. \<bar>l - c\<bar>) c) (zip (map low hist) prev_close)
      in map (\<lambda>(hl, hc, lc). row_max hl [hc, lc]) (zip high_low (zip high_close low_close)))"

text \<open>
  The body of the \<open>try\<close> block of \<open>analyze_stock\<close> (lines 97 to 158): \<open>Inl\<close> is a raised
  exception, \<open>Inr None\<close> the early \<open>return None\<close> of line 103.
\<close>

definition analyze_body :: "provider \<Rightarrow> string \<Rightarrow> py_error + analysis_record option" where
  "analyze_body P symb =
     bind_err (history P symb ''3mo'') (\<lambda>hist.
     if hist = [] \<or> length hist < 50 then Inr None
     else
       bind_err (iloc (map close hist) (- 1)) (\<lambda>cur.
       bind_err (iloc (map close hist) (- 2)) (\<lambda>prev.
       bind_err (iloc (rolling_mean 20 (map (\<lambda>b. real_of_int (volume b)) hist)) (- 1)) (\<lambda>avg_volume.
       bind_err (iloc (map volume hist) (- 1)) (\<lambda>cur_volume.
       bind_err (calculate_rsi (map close hist) 14) (\<lambda>rsi_v.
       bind_err (calculate_sma (map close hist) 20) (\<lambda>sma20_v.
       bind_err (calculate_sma (map close hist) 50) (\<lambda>sma50_v.
       bind_err (calculate_ema (map close hist) 12) (\<lambda>ema12_v.
       bind_err (calculate_ema (map close hist) 26) (\<lambda>ema26_v.
       bind_err (iloc (rolling_mean 14 (true_range hist)) (- 1)) (\<lambda>atr_v.
       bind_err (info P symb) (\<lambda>ti.
         Inr (Some
           \<lparr> symbol = symb,
             company_name = (case info_shortName ti of None \<Rightarrow> symb | Some n \<Rightarrow> n),
             sector = (case info_sector ti of None \<Rightarrow> ''N/A'' | Some n \<Rightarrow> n),
             current_price = round_nd (Fin cur) 2,
             daily_change_pct = round_nd (daily_change_pct_of cur prev) 2,
             rsi = round_nd rsi_v 1,
             sma20 = round_nd sma20_v 2,
             sma50 = round_nd sma50_v 2,
             ema12 = round_nd ema12_v 2,
             ema26 = round_nd ema26_v 2,
             volume_ratio = round_nd (volume_ratio_of cur_volume avg_volume) 2,
             high_52w = round_nd (series_max (map high hist)) 2,
             low_52w = round_nd (series_min (map low hist)) 2,
             position_52w =
               round_nd (position_52w_of cur (series_max (map high hist))
                           (series_min (map low hist))) 1,
             atr = round_nd atr_v 2,
             signals = get_technical_signals rsi_v (Fin cur) sma20_v sma50_v,
             market_cap = (case info_marketCap ti of None \<Rightarrow> 0 | Some c \<Rightarrow> c) \<rparr>)))))))))))))"

text \<open>\<open>analyze_stock\<close>: the \<open>except Exception\<close> of lines 159 to 161 turns every raise into \<open>None\<close>.\<close>

definition analyze_stock :: "provider \<Rightarrow> string \<Rightarrow> analysis_record option" where
  "analyze_stock P symb = (case analyze_body P symb of Inl e \<Rightarrow> None | Inr r \<Rightarrow> r)"

section \<open>Market scanner\<close>

record scored_record = analysis_record +
  movement_score :: fval

text \<open>Lines 175 and 176: the score is computed from two entries of the record and stored in it.\<close>

definition add_score :: "analysis_record \<Rightarrow> scored_record" where
  "add_score d =
     analysis_record.extend d
       (scored_record.fields (fmul (fabs (daily_change_pct d)) (volume_ratio d)))"

text \<open>The loop of lines 170 to 177, with \<open>analyzed_stocks\<close> as the accumulator.\<close>

fun scan_loop :: "provider \<Rightarrow> string list \<Rightarrow> scored_record list \<Rightarrow> scored_record list" where
  "scan_loop P [] analyzed = analyzed"
| "scan_loop P (symb # rest) analyzed =
     (case analyze_stock P symb of
        None \<Rightarrow> scan_loop P rest analyzed
      | Some d \<Rightarrow> scan_loop P rest (analyzed @ [add_score d]))"

text \<open>
  \<open>list.sort(key, reverse=True)\<close>. CPython reverses the list, sorts it ascending and
  stably, and reverses the result. The ascending sort compares keys with \<open><\<close> only. It
  is modelled as the insertion sort that puts each element behind the elements already
  placed that are not greater. On a list of fewer than 64 entries (the program's
  watchlist has 41) CPython runs an insertion sort too, finding the place by bisection;
  where \<open><\<close> orders the keys totally, every stable sort returns the same list, and on two
  elements both make the one comparison of the second key with the first.
\<close>

fun insert_by :: "('a \<Rightarrow> fval) \<Rightarrow> 'a \<Rightarrow> 'a list \<Rightarrow> 'a list" where
  "insert_by key x [] = [x]"
| "insert_by key x (y # ys) =
     (if flt (key x) (key y) then x # y # ys else y # insert_by key x ys)"

definition sort_by :: "('a \<Rightarrow> fval) \<Rightarrow> 'a list \<Rightarrow> 'a list" where
  "sort_by key xs = foldl (\<lambda>sorted x. insert_by key x sorted) [] xs"

definition sort_reverse :: "('a \<Rightarrow> fval) \<Rightarrow> 'a list \<Rightarrow> 'a list" where
  "sort_reverse key xs = rev (sort_by key (rev xs))"

text \<open>The slice \<open>xs[:limit]\<close>: a negative \<open>limit\<close> counts from the end.\<close>

definition slice_to :: "'a list \<Rightarrow> int \<Rightarrow> 'a list" where
  "slice_to xs limit =
     (if 0 \<le> limit then take (nat limit) xs else take (nat (int (length xs) + limit)) xs)"

text \<open>\<open>get_top_movers\<close> (lines 164 to 183), with the watchlist as a parameter.\<close>

definition get_top_movers :: "provider \<Rightarrow> string list \<Rightarrow> int \<Rightarrow> scored_record list" where
  "get_top_movers P watchlist limit =
     slice_to (sort_reverse movement_score (scan_loop P watchlist [])) limit"

section \<open>Market summary\<close>

text \<open>A value of the summary dictionary is a number or a string.\<close>

datatype pyval = Num fval | Str string

record market_summary =
  spy_change :: pyval
  qqq_change :: pyval
  vix :: pyval
  spy_trend :: string

text \<open>The expression of lines 195 and 196 on a column of closes.\<close>

definition change_of :: "real list \<Rightarrow> py_error + pyval" where
  "change_of closes =
     bind_err (iloc closes (- 1)) (\<lambda>a.
     bind_err (iloc closes (- 2)) (\<lambda>b.
     bind_err (iloc closes (- 2)) (\<lambda>c.
       Inr (Num (round_nd (fmul (fdiv (Fin (a - b)) (Fin c)) (Fin 100)) 2)))))"

definition summary_body :: "provider \<Rightarrow> py_error + market_summary" where
  "summary_body P =
     bind_err (history P ''SPY'' ''5d'') (\<lambda>spy.
     bind_err (history P ''QQQ'' ''5d'') (\<lambda>qqq.
     bind_err (history P ''^VIX'' ''1d'') (\<lambda>vix_hist.
     bind_err (change_of (map close spy)) (\<lambda>spy_c.
     bind_err (change_of (map close qqq)) (\<lambda>qqq_c.
     bind_err (if vix_hist \<noteq> []
               then bind_err (iloc (map close vix_hist) (- 1)) (\<lambda>v. Inr (Num (round_nd (Fin v) 2)))
               else Inr (Str ''N/A'')) (\<lambda>vix_v.
     bind_err (iloc (map close spy) (- 1)) (\<lambda>a.
     bind_err (iloc (map close spy) (- 5)) (\<lambda>b.
       Inr \<lparr> spy_change = spy_c, qqq_change = qqq_c, vix = vix_v,
             spy_trend = (if b < a then ''Alcista'' else ''Bajista'') \<rparr>))))))))"

text \<open>\<open>get_market_summary\<close> (lines 186 to 201): the bare \<open>except\<close> returns the fixed dictionary.\<close>

definition get_market_summary :: "provider \<Rightarrow> market_summary" where
  "get_market_summary P =
     (case summary_body P of
        Inl e \<Rightarrow> \<lparr> spy_change = Num (Fin 0), qqq_change = Num (Fin 0), vix = Str ''N/A'',
                    spy_trend = ''N/A'' \<rparr>
      | Inr s \<Rightarrow> s)"

section \<open>Closed forms of the analysis\<close>

text \<open>
  The local variables of \<open>analyze_stock\<close> as functions of the price history, for a
  history on which no positional read fails. \<open>analysis_of\<close> is the dictionary of lines
  140 to 158; the lemmas below show that \<open>analyze_stock\<close> returns it.
\<close>

definition raw_daily_change_pct :: "bar list \<Rightarrow> fval" where
  "raw_daily_change_pct hist =
     daily_change_pct_of (last (map close hist)) (map close hist ! (length hist - 2))"

definition avg_volume_of :: "bar list \<Rightarrow> fval" where
  "avg_volume_of hist = last (rolling_mean 20 (map (\<lambda>b. real_of_int (volume b)) hist))"

definition raw_volume_ratio :: "bar list \<Rightarrow> fval" where
  "raw_volume_ratio hist = volume_ratio_of (last (map volume hist)) (avg_volume_of hist)"

definition raw_position_52w :: "bar list \<Rightarrow> fval" where
  "raw_position_52w hist =
     position_52w_of (last (map close hist)) (series_max (map high hist))
       (series_min (map low hist))"

definition avg_gain :: "real list \<Rightarrow> nat \<Rightarrow> fval" where
  "avg_gain prices period =
     last (rolling_mean period
       (map (\<lambda>d. case d of None \<Rightarrow> 0 | Some v \<Rightarrow> if 0 < v then v else 0) (diff prices)))"

definition avg_loss :: "real list \<Rightarrow> nat \<Rightarrow> fval" where
  "avg_loss prices period =
     last (rolling_mean period
       (map (\<lambda>d. - (case d of None \<Rightarrow> 0 | Some v \<Rightarrow> if v < 0 then v else 0)) (diff prices)))"

definition rsi_of :: "fval \<Rightarrow> fval \<Rightarrow> fval" where
  "rsi_of g l = fsub (Fin 100) (fdiv (Fin 100) (fadd (Fin 1) (fdiv g l)))"

definition raw_rsi :: "bar list \<Rightarrow> fval" where
  "raw_rsi hist = rsi_of (avg_gain (map close hist) 14) (avg_loss (map close hist) 14)"

definition analysis_of :: "string \<Rightarrow> bar list \<Rightarrow> ticker_info \<Rightarrow> analysis_record" where
  "analysis_of symb hist ti =
     \<lparr> symbol = symb,
       company_name = (case info_shortName ti of None \<Rightarrow> symb | Some n \<Rightarrow> n),
       sector = (case info_sector ti of None \<Rightarrow> ''N/A'' | Some n \<Rightarrow> n),
       current_price = round_nd (Fin (last (map close hist))) 2,
       daily_change_pct = round_nd (raw_daily_change_pct hist) 2,
       rsi = round_nd (raw_rsi hist) 1,
       sma20 = round_nd (last (rolling_mean 20 (map close hist))) 2,
       sma50 = round_nd (last (rolling_mean 50 (map close hist))) 2,
       ema12 = round_nd (Fin (last (ewm_mean 12 (map close hist)))) 2,
       ema26 = round_nd (Fin (last (ewm_mean 26 (map close hist)))) 2,
       volume_ratio = round_nd (raw_volume_ratio hist) 2,
       high_52w = round_nd (series_max (map high hist)) 2,
       low_52w = round_nd (series_min (map low hist)) 2,
       position_52w = round_nd (raw_position_52w hist) 1,
       atr = round_nd (last (rolling_mean 14 (true_range hist))) 2,
       signals =
         get_technical_signals (raw_rsi hist) (Fin (last (map close hist)))
           (last (rolling_mean 20 (map close hist))) (last (rolling_mean 50 (map close hist))),
       market_cap = (case info_marketCap ti of None \<Rightarrow> 0 | Some c \<Rightarrow> c) \<rparr>"

text \<open>The list of line 182 after the sort and before the slice.\<close>

definition ranking :: "provider \<Rightarrow> string list \<Rightarrow> scored_record list" where
  "ranking P watchlist = sort_reverse movement_score (scan_loop P watchlist [])"

section \<open>Specification predicates\<close>


text \<open>Descending by score, with Python's \<open>>=\<close> on every pair in list order.\<close>

definition ranked_desc :: "scored_record list \<Rightarrow> bool" where
  "ranked_desc xs = sorted_wrt (\<lambda>a b. fge (movement_score a) (movement_score b)) xs"

text \<open>Every entry of the summary carries the marker \<open>N/A\<close>.\<close>

definition all_unavailable :: "market_summary \<Rightarrow> bool" where
  "all_unavailable m \<longleftrightarrow>
     spy_change m = Str ''N/A'' \<and> qqq_change m = Str ''N/A'' \<and> vix m = Str ''N/A''
     \<and> spy_trend m = ''N/A''"

section \<open>Example market data\<close>

text \<open>
  A provider with a few constructed tickers: \<open>AAA\<close> closes 5 percent up on twice its
  mean volume, \<open>BBB\<close> and \<open>EEE\<close> close 8 percent down on mean volume, \<open>TTT\<close> closes one
  part in 300 up, \<open>DDD\<close> has 10 bars only, \<open>FFF\<close> is flat at 100 with no volume,
  \<open>ZZZ\<close> is flat at 0, and every other fetch raises.
\<close>

definition flat_bar :: "real \<Rightarrow> int \<Rightarrow> bar" where
  "flat_bar c v = \<lparr> open_price = c, high = c, low = c, close = c, volume = v \<rparr>"

definition hist_AAA :: "bar list" where
  "hist_AAA = replicate 49 (flat_bar 100 9) @ [flat_bar 105 19]"

definition hist_BBB :: "bar list" where
  "hist_BBB = replicate 49 (flat_bar 100 10) @ [flat_bar 92 10]"

definition hist_TTT :: "bar list" where
  "hist_TTT = replicate 49 (flat_bar 300 10) @ [flat_bar 301 10]"

definition hist_DDD :: "bar list" where
  "hist_DDD = replicate 10 (flat_bar 100 10)"

definition hist_FFF :: "bar list" where
  "hist_FFF = replicate 60 (flat_bar 100 0)"

definition hist_ZZZ :: "bar list" where
  "hist_ZZZ = replicate 50 (flat_bar 0 0)"

definition demo_history :: "string \<Rightarrow> py_error + bar list" where
  "demo_history s =
     (if s = ''AAA'' then Inr hist_AAA
      else if s = ''BBB'' \<or> s = ''EEE'' then Inr hist_BBB
      else if s = ''TTT'' then Inr hist_TTT
      else if s = ''DDD'' then Inr hist_DDD
      else if s = ''FFF'' then Inr hist_FFF
      else if s = ''ZZZ'' then Inr hist_ZZZ
      else Inl FetchError)"

definition no_info :: ticker_info where
  "no_info = \<lparr> info_shortName = None, info_sector = None, info_marketCap = None \<rparr>"

definition demo_market :: provider where
  "demo_market =
     \<lparr> history = (\<lambda>s p. if p = ''3mo'' then demo_history s else Inl FetchError),
       info = (\<lambda>s. Inr no_info) \<rparr>"

section \<open>Facts about the series operations\<close>

lemma iloc_last: "xs \<noteq> [] \<Longrightarrow> iloc xs (- 1) = Inr (last xs)"
  by (cases xs rule: rev_cases) (auto simp: iloc_def nth_append)

lemma iloc_second_last: "2 \<le> length xs \<Longrightarrow> iloc xs (- 2) = Inr (xs ! (length xs - 2))"
  by (auto simp: iloc_def nat_diff_distrib' intro!: arg_cong[where f="nth xs"])

lemma length_rolling_mean [simp]: "length (rolling_mean w xs) = length xs"
  by (simp add: rolling_mean_def)

lemma length_diff [simp]: "length (diff xs) = length xs"
  by (cases xs) auto

lemma length_shift [simp]: "length (shift xs) = length xs"
  by (cases xs) auto

lemma length_ewm_rows [simp]: "length (ewm_rows a y xs) = length xs"
  by (induction xs arbitrary: y) (auto simp: Let_def)

lemma length_ewm_mean [simp]: "length (ewm_mean n xs) = length xs"
  by (cases xs) auto

lemma length_true_range [simp]: "length (true_range h) = length h"
  by (simp add: true_range_def Let_def)

lemma rolling_mean_Nil_iff [simp]: "rolling_mean w xs = [] \<longleftrightarrow> xs = []"
  by (simp add: rolling_mean_def)

lemma diff_Nil_iff [simp]: "diff xs = [] \<longleftrightarrow> xs = []"
  by (cases xs) auto

lemma true_range_Nil_iff [simp]: "true_range h = [] \<longleftrightarrow> h = []"
  using length_true_range [of h] by (metis length_0_conv)

lemma ewm_mean_Nil_iff [simp]: "ewm_mean n xs = [] \<longleftrightarrow> xs = []"
  by (cases xs) auto

lemma last_rolling_mean:
  "xs \<noteq> [] \<Longrightarrow> w \<le> length xs \<Longrightarrow>
   last (rolling_mean w xs) = Fin (sum_list (take w (drop (length xs - w) xs)) / real w)"
  by (auto simp: rolling_mean_def last_map)

lemma calculate_rsi_last:
  "prices \<noteq> [] \<Longrightarrow>
   calculate_rsi prices period = Inr (rsi_of (avg_gain prices period) (avg_loss prices period))"
  by (simp add: calculate_rsi_def Let_def rsi_of_def avg_gain_def avg_loss_def iloc_last
      last_map last_zip)

lemma calculate_sma_last:
  "prices \<noteq> [] \<Longrightarrow> calculate_sma prices period = Inr (last (rolling_mean period prices))"
  by (simp add: calculate_sma_def iloc_last)

lemma calculate_ema_last:
  "prices \<noteq> [] \<Longrightarrow> calculate_ema prices period = Inr (Fin (last (ewm_mean period prices)))"
  by (simp add: calculate_ema_def iloc_last last_map)

section \<open>What \<open>analyze_stock\<close> returns\<close>

lemma analyze_body_fetch_error: "history P s ''3mo'' = Inl e \<Longrightarrow> analyze_body P s = Inl e"
  by (simp add: analyze_body_def bind_err_def)

lemma analyze_body_short:
  "history P s ''3mo'' = Inr h \<Longrightarrow> length h < 50 \<Longrightarrow> analyze_body P s = Inr None"
  by (simp add: analyze_body_def bind_err_def)

lemma analyze_body_long:
  assumes h: "history P s ''3mo'' = Inr h" and len: "50 \<le> length h"
  shows "analyze_body P s = bind_err (info P s) (\<lambda>ti. Inr (Some (analysis_of s h ti)))"
proof -
  from len have ne: "h \<noteq> []" and l2: "2 \<le> length (map close h)" by auto
  show ?thesis
    using h len ne
    by (cases "info P s")
      (simp_all add: analyze_body_def bind_err_def iloc_last iloc_second_last [OF l2]
        calculate_rsi_last calculate_sma_last calculate_ema_last analysis_of_def
        raw_daily_change_pct_def raw_volume_ratio_def avg_volume_of_def raw_position_52w_def
        raw_rsi_def)
qed

lemma analyze_stock_short:
  "history P s ''3mo'' = Inr h \<Longrightarrow> length h < 50 \<Longrightarrow> analyze_stock P s = None"
  by (simp add: analyze_stock_def analyze_body_short)

lemma analyze_stock_long:
  "history P s ''3mo'' = Inr h \<Longrightarrow> 50 \<le> length h \<Longrightarrow> info P s = Inr ti \<Longrightarrow>
   analyze_stock P s = Some (analysis_of s h ti)"
  by (simp add: analyze_stock_def analyze_body_long bind_err_def)

lemma analyze_stock_Some_iff:
  "analyze_stock P s = Some r \<longleftrightarrow>
   (\<exists>h ti. history P s ''3mo'' = Inr h \<and> 50 \<le> length h \<and> info P s = Inr ti
      \<and> r = analysis_of s h ti)"
proof (cases "history P s ''3mo''")
  case (Inl e)
  then show ?thesis by (simp add: analyze_stock_def analyze_body_fetch_error)
next
  case (Inr h)
  show ?thesis
  proof (cases "length h < 50")
    case True
    with Inr show ?thesis by (simp add: analyze_stock_short)
  next
    case False
    with Inr show ?thesis
      by (cases "info P s")
        (auto simp: analyze_stock_def analyze_body_long bind_err_def)
  qed
qed

lemma analysis_of_simps [simp]:
  "symbol (analysis_of s h ti) = s"
  "daily_change_pct (analysis_of s h ti) = round_nd (raw_daily_change_pct h) 2"
  "volume_ratio (analysis_of s h ti) = round_nd (raw_volume_ratio h) 2"
  "position_52w (analysis_of s h ti) = round_nd (raw_position_52w h) 1"
  "rsi (analysis_of s h ti) = round_nd (raw_rsi h) 1"
  by (simp_all add: analysis_of_def)

lemma add_score_simps [simp]:
  "movement_score (add_score d) = fmul (fabs (daily_change_pct d)) (volume_ratio d)"
  "symbol (add_score d) = symbol d"
  "daily_change_pct (add_score d) = daily_change_pct d"
  "volume_ratio (add_score d) = volume_ratio d"
  by (simp_all add: add_score_def analysis_record.defs scored_record.defs)

section \<open>Facts about the scan and the sort\<close>

lemma scan_loop_eq:
  "scan_loop P W acc = acc @ map add_score (List.map_filter (analyze_stock P) W)"
  by (induction W arbitrary: acc) (auto simp: List.map_filter_simps split: option.splits)

lemma set_scan_loop:
  "set (scan_loop P W []) = {add_score d | d s. s \<in> set W \<and> analyze_stock P s = Some d}"
  by (fastforce simp: scan_loop_eq List.map_filter_def image_iff)

lemma flt_irrefl [simp]: "\<not> flt a a"
  by (cases a) auto

lemma flt_trans: "flt a b \<Longrightarrow> flt b c \<Longrightarrow> flt a c"
  by (cases a; cases b; cases c) auto

lemma mset_insert_by: "mset (insert_by key x ys) = add_mset x (mset ys)"
  by (induction ys) auto

lemma set_insert_by: "set (insert_by key x ys) = insert x (set ys)"
  by (induction ys) auto

lemma sort_by_snoc: "sort_by key (xs @ [x]) = insert_by key x (sort_by key xs)"
  by (simp add: sort_by_def)

lemma sort_by_Nil [simp]: "sort_by key [] = []"
  by (simp add: sort_by_def)

lemma mset_sort_by: "mset (sort_by key xs) = mset xs"
  by (induction xs rule: rev_induct) (simp_all add: sort_by_snoc mset_insert_by)

lemma sorted_insert_by:
  "sorted_wrt (\<lambda>a b. \<not> flt (key b) (key a)) ys \<Longrightarrow>
   sorted_wrt (\<lambda>a b. \<not> flt (key b) (key a)) (insert_by key x ys)"
proof (induction ys)
  case Nil
  then show ?case by simp
next
  case (Cons y ys)
  show ?case
  proof (cases "flt (key x) (key y)")
    case True
    have "\<not> flt (key z) (key x)" if "z \<in> set (y # ys)" for z
    proof
      assume "flt (key z) (key x)"
      then have "flt (key z) (key y)" using True flt_trans by blast
      with Cons.prems that show False by auto
    qed
    with Cons.prems True show ?thesis by auto
  next
    case False
    with Cons show ?thesis by (auto simp: set_insert_by)
  qed
qed

lemma sorted_sort_by: "sorted_wrt (\<lambda>a b. \<not> flt (key b) (key a)) (sort_by key xs)"
  by (induction xs rule: rev_induct) (simp_all add: sort_by_snoc sorted_insert_by)

lemma filter_insert_by:
  assumes "sorted_wrt (\<lambda>a b. \<not> flt (key b) (key a)) ys"
  shows "filter (\<lambda>y. key y = k) (insert_by key x ys) =
         filter (\<lambda>y. key y = k) ys @ (if key x = k then [x] else [])"
  using assms
proof (induction ys)
  case Nil
  then show ?case by simp
next
  case (Cons y ys)
  show ?case
  proof (cases "flt (key x) (key y)")
    case True
    have "key z \<noteq> key x" if "z \<in> set (y # ys)" for z
    proof
      assume "key z = key x"
      then have "flt (key z) (key y)" using True by simp
      with Cons.prems that show False by auto
    qed
    then have "filter (\<lambda>y. key y = key x) (y # ys) = []"
      by (auto simp: filter_empty_conv)
    with True show ?thesis by auto
  next
    case False
    with Cons show ?thesis by auto
  qed
qed

lemma filter_sort_by:
  "filter (\<lambda>y. key y = k) (sort_by key xs) = filter (\<lambda>y. key y = k) xs"
  by (induction xs rule: rev_induct)
    (simp_all add: sort_by_snoc filter_insert_by sorted_sort_by)

lemma mset_sort_reverse: "mset (sort_reverse key xs) = mset xs"
  by (simp add: sort_reverse_def mset_sort_by)

lemma set_sort_reverse: "set (sort_reverse key xs) = set xs"
  using mset_sort_reverse [of key xs] by (metis set_mset_mset)

lemma length_sort_reverse: "length (sort_reverse key xs) = length xs"
  using mset_sort_reverse [of key xs] by (metis size_mset)

lemma filter_sort_reverse:
  "filter (\<lambda>y. key y = k) (sort_reverse key xs) = filter (\<lambda>y. key y = k) xs"
  by (simp add: sort_reverse_def filter_sort_by rev_filter [symmetric])

lemma sorted_sort_reverse:
  "sorted_wrt (\<lambda>a b. \<not> flt (key a) (key b)) (sort_reverse key xs)"
  using sorted_sort_by [of key "rev xs"] by (simp add: sort_reverse_def sorted_wrt_rev)

lemma tie_order_sort_reverse:
  assumes "key a = key b" and "subseq [a, b] xs"
  shows "subseq [a, b] (sort_reverse key xs)"
proof -
  let ?f = "filter (\<lambda>y. key y = key a)"
  from assms(2) have "subseq (?f [a, b]) (?f xs)" by (rule subseq_filter)
  then have "subseq [a, b] (?f (sort_reverse key xs))"
    using assms(1) by (simp add: filter_sort_reverse)
  then show ?thesis
    using subseq_filter_left subseq_order.order_trans by blast
qed


lemma set_slice_to: "set (slice_to xs limit) \<subseteq> set xs"
  by (auto simp: slice_to_def dest: in_set_takeD)

lemma set_get_top_movers: "set (get_top_movers P W limit) \<subseteq> set (scan_loop P W [])"
  using set_slice_to [of "sort_reverse movement_score (scan_loop P W [])" limit]
  by (simp add: get_top_movers_def set_sort_reverse)

section \<open>Properties of the signal classifier\<close>

text \<open>
  Claim C7. For all real price, SMA20 and SMA50 the trend signal is the bullish label
  exactly when price > SMA20 and SMA20 > SMA50 hold strictly, the bearish label exactly
  when price < SMA20 and SMA20 < SMA50 hold strictly, and the mixed label in every other
  case; a price equal to SMA20 gives the mixed label.
\<close>

theorem trend_signal_cases:
  "(trend_signal (get_technical_signals v (Fin price) (Fin s20) (Fin s50)) = ''Alcista''
      \<longleftrightarrow> price > s20 \<and> s20 > s50)
   \<and> (trend_signal (get_technical_signals v (Fin price) (Fin s20) (Fin s50)) = ''Bajista''
      \<longleftrightarrow> price < s20 \<and> s20 < s50)
   \<and> (trend_signal (get_technical_signals v (Fin price) (Fin s20) (Fin s50)) = mixta
      \<longleftrightarrow> \<not> (price > s20 \<and> s20 > s50) \<and> \<not> (price < s20 \<and> s20 < s50))
   \<and> (price = s20 \<longrightarrow>
      trend_signal (get_technical_signals v (Fin price) (Fin s20) (Fin s50)) = mixta)"
  by (auto simp: get_technical_signals_def fgt_def mixta_def)

theorem trend_signal_cases_witness:
  "trend_signal (get_technical_signals (Fin 50) (Fin 10) (Fin 10) (Fin 9)) = mixta
   \<and> trend_signal (get_technical_signals (Fin 50) (Fin 11) (Fin 10) (Fin 9)) = ''Alcista''
   \<and> trend_signal (get_technical_signals (Fin 50) (Fin 8) (Fin 9) (Fin 10)) = ''Bajista''"
  using trend_signal_cases [of "Fin 50" 10 10 9] trend_signal_cases [of "Fin 50" 11 10 9]
    trend_signal_cases [of "Fin 50" 8 9 10]
  by simp

text \<open>
  Claim C8. For all real SMA20 and SMA50 the moving-average signal is the golden-cross
  label exactly when SMA20 > SMA50 strictly and the death-cross label otherwise; equal
  averages give the death-cross label.
\<close>

theorem ma_signal_cases:
  "(ma_signal (get_technical_signals v price (Fin s20) (Fin s50)) = ''Golden Cross (alcista)''
      \<longleftrightarrow> s20 > s50)
   \<and> (ma_signal (get_technical_signals v price (Fin s20) (Fin s50)) = ''Death Cross (bajista)''
      \<longleftrightarrow> \<not> s20 > s50)
   \<and> ma_signal (get_technical_signals v price (Fin s20) (Fin s20)) = ''Death Cross (bajista)''"
  by (auto simp: get_technical_signals_def fgt_def)

theorem ma_signal_cases_witness:
  "ma_signal (get_technical_signals NaN PInf (Fin 3) (Fin 3)) = ''Death Cross (bajista)''
   \<and> ma_signal (get_technical_signals NaN PInf (Fin 4) (Fin 3)) = ''Golden Cross (alcista)''"
  using ma_signal_cases [of NaN PInf 3 3] ma_signal_cases [of NaN PInf 4 3]
  by simp

section \<open>Facts about the example market data\<close>

lemma demo_history_3mo [simp]: "history demo_market s ''3mo'' = demo_history s"
  by (simp add: demo_market_def)

lemma demo_history_other [simp]: "p \<noteq> ''3mo'' \<Longrightarrow> history demo_market s p = Inl FetchError"
  by (simp add: demo_market_def)

lemma demo_info [simp]: "info demo_market s = Inr no_info"
  by (simp add: demo_market_def)

lemma demo_history_simps [simp]:
  "demo_history ''AAA'' = Inr hist_AAA"
  "demo_history ''BBB'' = Inr hist_BBB"
  "demo_history ''EEE'' = Inr hist_BBB"
  "demo_history ''TTT'' = Inr hist_TTT"
  "demo_history ''DDD'' = Inr hist_DDD"
  "demo_history ''FFF'' = Inr hist_FFF"
  "demo_history ''ZZZ'' = Inr hist_ZZZ"
  "demo_history ''CCC'' = Inl FetchError"
  by (simp_all add: demo_history_def)

lemma length_hists [simp]:
  "length hist_AAA = 50" "length hist_BBB = 50" "length hist_TTT = 50"
  "length hist_DDD = 10" "length hist_FFF = 60" "length hist_ZZZ = 50"
  by (simp_all add: hist_AAA_def hist_BBB_def hist_TTT_def hist_DDD_def hist_FFF_def
      hist_ZZZ_def)

lemma demo_analyze:
  "demo_history s = Inr h \<Longrightarrow> 50 \<le> length h \<Longrightarrow>
   analyze_stock demo_market s = Some (analysis_of s h no_info)"
  by (rule analyze_stock_long) simp_all

section \<open>Facts about rounding\<close>

lemma rint_of_int [simp]: "rint (of_int k) = k"
  by (simp add: rint_def)

lemma rint_numeral [simp]: "rint (numeral n) = numeral n"
  using rint_of_int [of "numeral n"] by simp


lemma round_nd_one [simp]: "round_nd (Fin 1) nd = Fin 1"
proof -
  have "(10::real) ^ nd = of_int (10 ^ nd)" by simp
  then have "rint (1 * 10 ^ nd) = 10 ^ nd" by (metis mult_1 rint_of_int)
  then show ?thesis by simp
qed

section \<open>Degenerate denominators\<close>

lemma rsi_of_range:
  assumes "0 \<le> g" and "0 < l"
  shows "\<exists>v. rsi_of (Fin g) (Fin l) = Fin v \<and> 0 \<le> v \<and> v \<le> 100"
proof -
  from assms have pos: "0 < 1 + g / l" by (simp add: add_pos_nonneg)
  then have "100 / (1 + g / l) \<le> 100" using assms by (simp add: field_simps)
  moreover have "0 \<le> 100 / (1 + g / l)" using pos by simp
  moreover have "rsi_of (Fin g) (Fin l) = Fin (100 - 100 / (1 + g / l))"
    using assms pos by (simp add: rsi_of_def fsub_def)
  ultimately show ?thesis by simp
qed

lemma rsi_of_zero_loss: "0 < g \<Longrightarrow> rsi_of (Fin g) (Fin 0) = Fin 100"
  by (simp add: rsi_of_def fsub_def)

lemma rsi_of_zero_both: "rsi_of (Fin 0) (Fin 0) = NaN"
  by (simp add: rsi_of_def fsub_def)

lemma last_rolling_mean_cases:
  "xs \<noteq> [] \<Longrightarrow>
   last (rolling_mean w xs) =
     (if length xs < w then NaN
      else Fin (sum_list (take w (drop (length xs - w) xs)) / real w))"
  by (auto simp: rolling_mean_def last_map)

lemma avg_gain_cases:
  assumes "prices \<noteq> []"
  shows "avg_gain prices period = NaN \<and> avg_loss prices period = NaN
     \<or> (\<exists>g l. avg_gain prices period = Fin g \<and> avg_loss prices period = Fin l \<and> 0 \<le> g \<and> 0 \<le> l)"
proof (cases "length prices < period")
  case True
  with assms show ?thesis
    by (simp add: avg_gain_def avg_loss_def last_rolling_mean_cases)
next
  case False
  let ?gs = "map (\<lambda>d. case d of None \<Rightarrow> 0 | Some v \<Rightarrow> if 0 < v then v else (0::real)) (diff prices)"
  let ?ls = "map (\<lambda>d. - (case d of None \<Rightarrow> 0 | Some v \<Rightarrow> if v < 0 then v else (0::real))) (diff prices)"
  have g: "0 \<le> sum_list (take period (drop (length prices - period) ?gs))"
    by (rule sum_list_nonneg) (auto dest!: in_set_takeD in_set_dropD split: option.splits)
  have l: "0 \<le> sum_list (take period (drop (length prices - period) ?ls))"
    by (rule sum_list_nonneg) (auto dest!: in_set_takeD in_set_dropD split: option.splits)
  from False assms g l show ?thesis
    by (simp add: avg_gain_def avg_loss_def last_rolling_mean_cases)
qed

lemma calculate_rsi_in_range:
  assumes "prices \<noteq> []" and "avg_loss prices period = Fin l" and "0 < l"
  shows "\<exists>v. calculate_rsi prices period = Inr (Fin v) \<and> 0 \<le> v \<and> v \<le> 100"
proof -
  from avg_gain_cases [OF assms(1), of period] assms(2)
  obtain g where "avg_gain prices period = Fin g" and "0 \<le> g" by auto
  with assms rsi_of_range [of g l] show ?thesis
    by (simp add: calculate_rsi_last)
qed

lemma calculate_rsi_zero_loss:
  assumes "prices \<noteq> []" and "avg_loss prices period = Fin 0"
  shows "calculate_rsi prices period = Inr (if avg_gain prices period = Fin 0 then NaN else Fin 100)"
proof -
  from avg_gain_cases [OF assms(1), of period] assms(2)
  obtain g where g: "avg_gain prices period = Fin g" "0 \<le> g" by auto
  show ?thesis
  proof (cases "g = 0")
    case True
    with g assms show ?thesis by (simp add: calculate_rsi_last rsi_of_zero_both)
  next
    case False
    with g have "0 < g" by simp
    with g assms show ?thesis by (simp add: calculate_rsi_last rsi_of_zero_loss)
  qed
qed

text \<open>
  Claim C5. For a close series long enough for the 14-period computation,
  \<open>calculate_rsi\<close> returns a value in [0,100] when the trailing average loss is
  positive, and returns 100 through an explicit fallback when the average loss is zero.
  The first half is \<open>calculate_rsi_in_range\<close>. For a zero average loss the division of
  line 46 is not guarded (\<open>calculate_rsi_zero_loss\<close>): the result is 100 when the
  average gain is positive, and \<open>NaN\<close> when it is zero too, as on a constant close
  series.
\<close>

theorem calculate_rsi_flat:
  "avg_gain (replicate 60 100) 14 = Fin 0 \<and> avg_loss (replicate 60 100) 14 = Fin 0
   \<and> calculate_rsi (replicate 60 100) 14 = Inr NaN"
  by code_simp

text \<open>
  Claim C6. For a flat price series (60 bars with close, high and low all 100) the 52-week
  position is computed without a division error and is one documented fallback value.
  Nothing is raised, but line 115 divides zero by zero without a guard: the position of
  the flat ticker \<open>FFF\<close> is \<open>NaN\<close>.
\<close>

theorem position_52w_flat:
  "hist_FFF = replicate 60 (flat_bar 100 0)
   \<and> history demo_market ''FFF'' ''3mo'' = Inr hist_FFF
   \<and> raw_position_52w hist_FFF = NaN
   \<and> map_option position_52w (analyze_stock demo_market ''FFF'') = Some NaN"
proof -
  have raw: "raw_position_52w hist_FFF = NaN"
    by code_simp
  have "analyze_stock demo_market ''FFF'' = Some (analysis_of ''FFF'' hist_FFF no_info)"
    by (rule demo_analyze) simp_all
  with raw show ?thesis
    by (simp add: hist_FFF_def)
qed

text \<open>
  Claim C4. Whenever the trailing 20-bar mean volume is zero, the volume ratio is exactly 1:
  the guard of line 120 takes the \<open>else\<close> branch, and the record stores 1.
\<close>

theorem zero_mean_volume_ratio:
  "volume_ratio_of cv (Fin 0) = Fin 1
   \<and> (analyze_stock P s = Some r \<longrightarrow> history P s ''3mo'' = Inr h \<longrightarrow> avg_volume_of h = Fin 0
        \<longrightarrow> raw_volume_ratio h = Fin 1 \<and> volume_ratio r = Fin 1)"
  by (auto simp: volume_ratio_of_def fgt_def raw_volume_ratio_def analyze_stock_Some_iff)

theorem zero_mean_volume_ratio_witness:
  "history demo_market ''FFF'' ''3mo'' = Inr hist_FFF
   \<and> avg_volume_of hist_FFF = Fin 0
   \<and> map_option volume_ratio (analyze_stock demo_market ''FFF'') = Some (Fin 1)"
proof -
  have h: "history demo_market ''FFF'' ''3mo'' = Inr hist_FFF"
    by simp
  have a: "avg_volume_of hist_FFF = Fin 0"
    by code_simp
  have s: "analyze_stock demo_market ''FFF'' = Some (analysis_of ''FFF'' hist_FFF no_info)"
    by (rule demo_analyze) simp_all
  from zero_mean_volume_ratio [of 0 demo_market "''FFF''" "analysis_of ''FFF'' hist_FFF no_info"
      hist_FFF] s h a
  show ?thesis by simp
qed

section \<open>Market summary on a failed fetch\<close>

text \<open>
  Claim C9, as amended. If the fetch of the SPY, QQQ or VIX series raises,
  \<open>get_market_summary\<close> does not raise: it returns the fixed summary in which
  \<open>vix\<close> and \<open>spy_trend\<close> carry the marker \<open>N/A\<close> and the two change entries are
  the number 0.
\<close>

theorem market_summary_fallback:
  "isl (history P ''SPY'' ''5d'') \<or> isl (history P ''QQQ'' ''5d'') \<or> isl (history P ''^VIX'' ''1d'')
   \<Longrightarrow> get_market_summary P =
     \<lparr> spy_change = Num (Fin 0), qqq_change = Num (Fin 0), vix = Str ''N/A'', spy_trend = ''N/A'' \<rparr>"
  by (auto simp: get_market_summary_def summary_body_def bind_err_def isl_def split: sum.splits)

theorem market_summary_fallback_witness:
  "isl (history demo_market ''QQQ'' ''5d'')
   \<and> get_market_summary demo_market =
     \<lparr> spy_change = Num (Fin 0), qqq_change = Num (Fin 0), vix = Str ''N/A'', spy_trend = ''N/A'' \<rparr>"
proof -
  have h: "isl (history demo_market ''QQQ'' ''5d'')" by simp
  then show ?thesis using market_summary_fallback [of demo_market] by blast
qed

text \<open>
  Claim C9 as stated asks for an unavailable marker in every entry. With a provider whose
  SPY fetch raises, the two change entries of the summary are the number 0.
\<close>

theorem market_summary_counterexample:
  "isl (history demo_market ''SPY'' ''5d'')
   \<and> spy_change (get_market_summary demo_market) = Num (Fin 0)
   \<and> qqq_change (get_market_summary demo_market) = Num (Fin 0)
   \<and> \<not> all_unavailable (get_market_summary demo_market)"
  by (simp add: get_market_summary_def summary_body_def bind_err_def all_unavailable_def)

section \<open>Short series\<close>

lemma map_filter_removeAll:
  "f s = None \<Longrightarrow> List.map_filter f (removeAll s W) = List.map_filter f W"
  by (induction W) (auto simp: List.map_filter_simps split: option.splits)

lemma scan_loop_removeAll:
  "analyze_stock P s = None \<Longrightarrow> scan_loop P (removeAll s W) [] = scan_loop P W []"
  by (simp add: scan_loop_eq map_filter_removeAll)

lemma length_scan_loop: "length (scan_loop P W []) \<le> length W"
  by (simp add: scan_loop_eq List.map_filter_def)

lemma analyze_stock_symbol: "analyze_stock P s = Some r \<Longrightarrow> symbol r = s"
  by (auto simp: analyze_stock_Some_iff)

lemma get_top_movers_all:
  "int (length W) \<le> limit \<Longrightarrow> set (get_top_movers P W limit) = set (scan_loop P W [])"
proof -
  assume "int (length W) \<le> limit"
  then have "length (sort_reverse movement_score (scan_loop P W [])) \<le> nat limit" and "0 \<le> limit"
    using length_scan_loop [of P W] by (simp_all add: length_sort_reverse)
  then show ?thesis
    by (simp add: get_top_movers_def slice_to_def set_sort_reverse)
qed

text \<open>
  Claim C3. For every ticker whose price series is empty or has fewer than 50 bars,
  \<open>analyze_stock\<close> returns \<open>None\<close> instead of raising, and \<open>get_top_movers\<close> skips
  exactly that ticker: its result is the result for the watchlist without the ticker, no
  returned record carries its symbol, and every other ticker of the watchlist with at
  least 50 bars and a readable \<open>info\<close> has its full record in the scan (and in the
  result when the limit does not truncate).
\<close>

theorem short_series_skipped:
  assumes "history P s ''3mo'' = Inr h" and "length h < 50"
  shows "analyze_stock P s = None
     \<and> get_top_movers P W limit = get_top_movers P (removeAll s W) limit
     \<and> (\<forall>r\<in>set (get_top_movers P W limit). symbol r \<noteq> s)
     \<and> (\<forall>t\<in>set W. \<forall>h' ti.
          history P t ''3mo'' = Inr h' \<and> 50 \<le> length h' \<and> info P t = Inr ti \<longrightarrow>
          (\<exists>r. analyze_stock P t = Some r \<and> symbol r = t
             \<and> add_score r \<in> set (scan_loop P W [])
             \<and> (int (length W) \<le> limit \<longrightarrow> add_score r \<in> set (get_top_movers P W limit))))"
proof -
  have none: "analyze_stock P s = None"
    using assms by (rule analyze_stock_short)
  have same: "get_top_movers P W limit = get_top_movers P (removeAll s W) limit"
    by (simp add: get_top_movers_def scan_loop_removeAll [OF none])
  have absent: "symbol r \<noteq> s" if "r \<in> set (get_top_movers P W limit)" for r
  proof -
    from that set_get_top_movers [of P W limit] have "r \<in> set (scan_loop P W [])" by blast
    then obtain d t where "r = add_score d" and "analyze_stock P t = Some d"
      by (auto simp: set_scan_loop)
    with none show ?thesis using analyze_stock_symbol [of P t d] by auto
  qed
  have others: "\<exists>r. analyze_stock P t = Some r \<and> symbol r = t
             \<and> add_score r \<in> set (scan_loop P W [])
             \<and> (int (length W) \<le> limit \<longrightarrow> add_score r \<in> set (get_top_movers P W limit))"
    if "t \<in> set W" and "history P t ''3mo'' = Inr h'" and "50 \<le> length h'" and "info P t = Inr ti"
    for t h' ti
  proof -
    have a: "analyze_stock P t = Some (analysis_of t h' ti)"
      using that(2-4) by (rule analyze_stock_long)
    then have "add_score (analysis_of t h' ti) \<in> set (scan_loop P W [])"
      using that(1) by (auto simp: set_scan_loop)
    with a show ?thesis by (auto simp: get_top_movers_all)
  qed
  from none same absent others show ?thesis by blast
qed

theorem short_series_skipped_witness:
  "history demo_market ''DDD'' ''3mo'' = Inr hist_DDD \<and> length hist_DDD < 50
   \<and> analyze_stock demo_market ''DDD'' = None
   \<and> get_top_movers demo_market [''AAA'', ''DDD'', ''BBB''] 5
       = get_top_movers demo_market [''AAA'', ''BBB''] 5
   \<and> ''DDD'' \<notin> symbol ` set (get_top_movers demo_market [''AAA'', ''DDD'', ''BBB''] 5)"
proof -
  have h: "history demo_market ''DDD'' ''3mo'' = Inr hist_DDD" by simp
  have l: "length hist_DDD < 50" by simp
  from short_series_skipped [OF h l, of "[''AAA'', ''DDD'', ''BBB'']" 5] h l
  show ?thesis by auto
qed

section \<open>Rounded record fields and the movement score\<close>

lemma add_score_more_simps [simp]:
  "current_price (add_score d) = current_price d"
  "rsi (add_score d) = rsi d"
  "position_52w (add_score d) = position_52w d"
  by (simp_all add: add_score_def analysis_record.defs scored_record.defs)





section \<open>The example tickers\<close>

lemma demo_raw:
  "raw_daily_change_pct hist_AAA = Fin 5" "raw_volume_ratio hist_AAA = Fin 2"
  "raw_daily_change_pct hist_BBB = Fin (- 8)" "raw_volume_ratio hist_BBB = Fin 1"
  "raw_daily_change_pct hist_TTT = Fin (1 / 3)" "raw_volume_ratio hist_TTT = Fin 1"
  "raw_daily_change_pct hist_ZZZ = NaN" "raw_volume_ratio hist_ZZZ = Fin 1"
  by code_simp+

lemma rint_third [simp]: "rint (100 / 3) = 33"
  by (simp add: rint_def)

lemma demo_rounded [simp]:
  "round_nd (raw_daily_change_pct hist_AAA) 2 = Fin 5"
  "round_nd (raw_volume_ratio hist_AAA) 2 = Fin 2"
  "round_nd (raw_daily_change_pct hist_BBB) 2 = Fin (- 8)"
  "round_nd (raw_volume_ratio hist_BBB) 2 = Fin 1"
  "round_nd (raw_daily_change_pct hist_TTT) 2 = Fin (33 / 100)"
  "round_nd (raw_volume_ratio hist_TTT) 2 = Fin 1"
  "round_nd (raw_daily_change_pct hist_ZZZ) 2 = NaN"
  "round_nd (raw_volume_ratio hist_ZZZ) 2 = Fin 1"
  by (simp_all add: demo_raw rint_def)

lemma demo_analyze_simps [simp]:
  "analyze_stock demo_market ''AAA'' = Some (analysis_of ''AAA'' hist_AAA no_info)"
  "analyze_stock demo_market ''BBB'' = Some (analysis_of ''BBB'' hist_BBB no_info)"
  "analyze_stock demo_market ''EEE'' = Some (analysis_of ''EEE'' hist_BBB no_info)"
  "analyze_stock demo_market ''TTT'' = Some (analysis_of ''TTT'' hist_TTT no_info)"
  "analyze_stock demo_market ''ZZZ'' = Some (analysis_of ''ZZZ'' hist_ZZZ no_info)"
  by (rule demo_analyze; simp)+

lemma demo_analyze_none [simp]:
  "analyze_stock demo_market ''DDD'' = None"
  "analyze_stock demo_market ''CCC'' = None"
proof -
  show "analyze_stock demo_market ''DDD'' = None"
    by (rule analyze_stock_short [of _ _ hist_DDD]) simp_all
  show "analyze_stock demo_market ''CCC'' = None"
    by (simp add: analyze_stock_def analyze_body_fetch_error [of _ _ FetchError])
qed

lemma demo_scan:
  "scan_loop demo_market [''AAA'', ''DDD'', ''BBB'', ''CCC'', ''EEE''] [] =
     [add_score (analysis_of ''AAA'' hist_AAA no_info),
      add_score (analysis_of ''BBB'' hist_BBB no_info),
      add_score (analysis_of ''EEE'' hist_BBB no_info)]"
  by simp

lemma demo_ranking:
  "ranking demo_market [''EEE'', ''AAA'', ''DDD'', ''BBB'', ''CCC''] =
     [add_score (analysis_of ''AAA'' hist_AAA no_info),
      add_score (analysis_of ''EEE'' hist_BBB no_info),
      add_score (analysis_of ''BBB'' hist_BBB no_info)]"
  by (simp add: ranking_def sort_reverse_def sort_by_def)

section \<open>Ranking\<close>

lemma ranked_desc_sort_reverse:
  assumes "\<forall>r\<in>set xs. movement_score r \<noteq> NaN"
  shows "ranked_desc (sort_reverse movement_score xs)"
  unfolding ranked_desc_def
proof (rule sorted_wrt_mono_rel [OF _ sorted_sort_reverse])
  fix a b
  assume "a \<in> set (sort_reverse movement_score xs)" and "b \<in> set (sort_reverse movement_score xs)"
    and "\<not> flt (movement_score a) (movement_score b)"
  with assms show "fge (movement_score a) (movement_score b)"
    by (simp add: fge_def set_sort_reverse)
qed

lemma ranked_desc_take: "ranked_desc xs \<Longrightarrow> ranked_desc (take n xs)"
  unfolding ranked_desc_def by (rule sorted_wrt_take)

text \<open>
  Claim C1, as amended. For every watchlist and every limit that is not negative, and
  provided no movement score is \<open>NaN\<close>, \<open>get_top_movers\<close> returns exactly the first
  \<open>limit\<close> elements of the successful analysis records (in watchlist order, then sorted)
  in descending order of movement score: all of them when fewer succeeded, a permutation
  of the scanned records before the cut, and records with equal scores in the order of
  the watchlist.
\<close>

theorem top_movers_ranking:
  assumes "0 \<le> limit" and "\<forall>r\<in>set (scan_loop P W []). movement_score r \<noteq> NaN"
  shows "scan_loop P W [] = map add_score (List.map_filter (analyze_stock P) W)
    \<and> get_top_movers P W limit = take (nat limit) (ranking P W)
    \<and> length (get_top_movers P W limit) = min (nat limit) (length (scan_loop P W []))
    \<and> mset (ranking P W) = mset (scan_loop P W [])
    \<and> ranked_desc (ranking P W)
    \<and> ranked_desc (get_top_movers P W limit)
    \<and> (\<forall>k. filter (\<lambda>r. movement_score r = k) (ranking P W)
            = filter (\<lambda>r. movement_score r = k) (scan_loop P W []))
    \<and> (\<forall>a b. movement_score a = movement_score b \<longrightarrow> subseq [a, b] (scan_loop P W [])
            \<longrightarrow> subseq [a, b] (ranking P W))"
proof -
  have scan: "scan_loop P W [] = map add_score (List.map_filter (analyze_stock P) W)"
    by (simp add: scan_loop_eq)
  have top: "get_top_movers P W limit = take (nat limit) (ranking P W)"
    using assms(1) by (simp add: get_top_movers_def ranking_def slice_to_def)
  have len: "length (get_top_movers P W limit) = min (nat limit) (length (scan_loop P W []))"
    unfolding top by (simp add: ranking_def length_sort_reverse min.commute)
  have perm: "mset (ranking P W) = mset (scan_loop P W [])"
    by (simp add: ranking_def mset_sort_reverse)
  have desc: "ranked_desc (ranking P W)"
    unfolding ranking_def using assms(2) by (rule ranked_desc_sort_reverse)
  then have desc_top: "ranked_desc (get_top_movers P W limit)"
    unfolding top by (rule ranked_desc_take)
  have stable: "filter (\<lambda>r. movement_score r = k) (ranking P W)
            = filter (\<lambda>r. movement_score r = k) (scan_loop P W [])" for k
    by (simp add: ranking_def filter_sort_reverse)
  have ties: "subseq [a, b] (ranking P W)"
    if "movement_score a = movement_score b" and "subseq [a, b] (scan_loop P W [])" for a b
    unfolding ranking_def using that by (rule tie_order_sort_reverse)
  from scan top len perm desc desc_top stable ties show ?thesis by blast
qed

theorem top_movers_ranking_witness:
  "(0::int) \<le> 5
   \<and> map movement_score (scan_loop demo_market [''EEE'', ''AAA'', ''DDD'', ''BBB'', ''CCC''] [])
       = [Fin 8, Fin 10, Fin 8]
   \<and> map symbol (get_top_movers demo_market [''EEE'', ''AAA'', ''DDD'', ''BBB'', ''CCC''] 5)
       = [''AAA'', ''EEE'', ''BBB'']
   \<and> map movement_score (get_top_movers demo_market [''EEE'', ''AAA'', ''DDD'', ''BBB'', ''CCC''] 5)
       = [Fin 10, Fin 8, Fin 8]
   \<and> ranked_desc (get_top_movers demo_market [''EEE'', ''AAA'', ''DDD'', ''BBB'', ''CCC''] 5)"
proof -
  have l: "(0::int) \<le> 5" by simp
  have n: "\<forall>r\<in>set (scan_loop demo_market [''EEE'', ''AAA'', ''DDD'', ''BBB'', ''CCC''] []).
         movement_score r \<noteq> NaN"
    by simp
  have sc: "map movement_score (scan_loop demo_market [''EEE'', ''AAA'', ''DDD'', ''BBB'', ''CCC''] [])
       = [Fin 8, Fin 10, Fin 8]"
    by simp
  from top_movers_ranking [OF l n]
  have top: "get_top_movers demo_market [''EEE'', ''AAA'', ''DDD'', ''BBB'', ''CCC''] 5
      = take (nat 5) (ranking demo_market [''EEE'', ''AAA'', ''DDD'', ''BBB'', ''CCC''])"
    and desc: "ranked_desc (get_top_movers demo_market [''EEE'', ''AAA'', ''DDD'', ''BBB'', ''CCC''] 5)"
    by blast+
  from top have
    "map symbol (get_top_movers demo_market [''EEE'', ''AAA'', ''DDD'', ''BBB'', ''CCC''] 5)
       = [''AAA'', ''EEE'', ''BBB'']"
    "map movement_score (get_top_movers demo_market [''EEE'', ''AAA'', ''DDD'', ''BBB'', ''CCC''] 5)
       = [Fin 10, Fin 8, Fin 8]"
    by (simp_all add: demo_ranking)
  with l sc desc show ?thesis by blast
qed

text \<open>
  Claim C1 as stated covers every limit and every watchlist. With the limit \<open>-1\<close> the
  slice of line 183 drops the last record instead of returning none, and a ticker whose
  last two closes are both 0 has the score \<open>NaN\<close>, which the sort of a two-element list
  leaves in front of a record with score 10.
\<close>

theorem top_movers_counterexample:
  "map symbol (ranking demo_market [''AAA'', ''BBB'']) = [''AAA'', ''BBB'']
   \<and> map symbol (get_top_movers demo_market [''AAA'', ''BBB''] (- 1)) = [''AAA'']
   \<and> get_top_movers demo_market [''AAA'', ''BBB''] (- 1)
       \<noteq> take (nat (- 1)) (ranking demo_market [''AAA'', ''BBB''])
   \<and> map movement_score (get_top_movers demo_market [''ZZZ'', ''AAA''] 5) = [NaN, Fin 10]
   \<and> \<not> ranked_desc (get_top_movers demo_market [''ZZZ'', ''AAA''] 5)"
  by (simp add: get_top_movers_def ranking_def sort_reverse_def sort_by_def slice_to_def
      ranked_desc_def fge_def)

section \<open>Movement score\<close>




end
